theory Spec2Isabelle
  imports Main
begin

section \<open>JavaScript strings and objects\<close>

text \<open>
  Shader sources, keys and names are JavaScript strings. They are modelled as
  \<^typ>\<open>string\<close>, one \<^typ>\<open>char\<close> per code unit, so a string here holds code units
  below 256, and what the model takes from the runtime it takes on such strings. The
  character classes below are those of JavaScript regular expressions on that range:
  \<open>\s\<close> is tab, line feed, vertical tab, form feed, carriage return, space and the
  no-break space \<open>U+00A0\<close>; \<open>\w\<close> is an ASCII letter, a digit or the underscore; and
  the line terminators that \<open>^\<close> and \<open>$\<close> see under the \<open>m\<close> flag are line feed and
  carriage return.
\<close>

definition is_line_terminator :: "char \<Rightarrow> bool" where
  "is_line_terminator c \<longleftrightarrow> c = CHR 0x0A \<or> c = CHR 0x0D"

definition is_space :: "char \<Rightarrow> bool" where
  "is_space c \<longleftrightarrow>
     c = CHR 0x09 \<or> c = CHR 0x0A \<or> c = CHR 0x0B \<or> c = CHR 0x0C \<or> c = CHR 0x0D \<or> c = CHR 0x20
     \<or> c = CHR 0xA0"

definition is_digit :: "char \<Rightarrow> bool" where
  "is_digit c \<longleftrightarrow> (48::nat) \<le> of_char c \<and> (of_char c :: nat) \<le> 57"

definition is_word :: "char \<Rightarrow> bool" where
  "is_word c \<longleftrightarrow>
     (let n = (of_char c :: nat)
      in (48 \<le> n \<and> n \<le> 57) \<or> (65 \<le> n \<and> n \<le> 90) \<or> (97 \<le> n \<and> n \<le> 122) \<or> n = 95)"

text \<open>
  \<open>str.replace(' ', '_')\<close> with a string pattern replaces the first occurrence only.
\<close>

fun replace_first_char :: "char \<Rightarrow> char \<Rightarrow> string \<Rightarrow> string" where
  "replace_first_char a b [] = []"
| "replace_first_char a b (c # cs) = (if c = a then b # cs else c # replace_first_char a b cs)"

text \<open>\<open>Array.prototype.join\<close>.\<close>

fun join :: "string \<Rightarrow> string list \<Rightarrow> string" where
  "join sep [] = []"
| "join sep [x] = x"
| "join sep (x # y # ys) = x @ sep @ join sep (y # ys)"

text \<open>The decimal numeral of a natural number, as \<open>'' + n\<close> prints it.\<close>

fun show_nat :: "nat \<Rightarrow> string" where
  "show_nat n =
     (if n < 10 then [char_of (48 + n)] else show_nat (n div 10) @ [char_of (48 + n mod 10)])"

definition show_int :: "int \<Rightarrow> string" where
  "show_int i = (if i < 0 then CHR ''-'' # show_nat (nat (- i)) else show_nat (nat i))"

text \<open>
  A plain object is the list of its own enumerable properties in the order \<open>for ... in\<close>
  visits them: the array-index keys in ascending numeric order first, then the other
  keys in the order they were created. Keys are distinct. The prototype of a plain
  object is \<open>Object.prototype\<close>. Its properties are not enumerable, but a read
  \<open>ob[k]\<close> of a name that \<open>ob\<close> does not have itself finds them; which names these are
  is a matter of the runtime (the field \<open>inherited\<close> of the library below). One of them
  is fixed here: \<open>__proto__\<close>, the accessor that reads the prototype of an object and,
  on an assignment \<open>ob['__proto__'] = v\<close> to an object that has no property of that name
  itself, replaces the prototype by \<open>v\<close> when \<open>v\<close> is an object or \<open>null\<close> and does nothing
  otherwise. Such an assignment makes no property.
\<close>

type_synonym 'v obj = "(string \<times> 'v) list"

definition proto_key :: string where
  "proto_key = ''__proto__''"

definition obj_get :: "'v obj \<Rightarrow> string \<Rightarrow> 'v option" where
  "obj_get ob k = map_of ob k"

definition obj_keys :: "'v obj \<Rightarrow> string list" where
  "obj_keys ob = map fst ob"

fun digits_val :: "int \<Rightarrow> string \<Rightarrow> int" where
  "digits_val acc [] = acc"
| "digits_val acc (c # cs) = digits_val (10 * acc + (of_char c - 48)) cs"

text \<open>
  An array index is the canonical decimal numeral of an integer below \<open>2^32 - 1\<close>.
\<close>

definition array_index :: "string \<Rightarrow> int option" where
  "array_index k =
     (if k \<noteq> [] \<and> list_all is_digit k \<and> (hd k \<noteq> CHR ''0'' \<or> length k = 1)
         \<and> digits_val 0 k < 4294967295
      then Some (digits_val 0 k) else None)"

definition key_before :: "string \<Rightarrow> string \<Rightarrow> bool" where
  "key_before k k' =
     (case array_index k of
        None \<Rightarrow> False
      | Some i \<Rightarrow> (case array_index k' of None \<Rightarrow> True | Some j \<Rightarrow> i < j))"

fun obj_insert :: "'v obj \<Rightarrow> string \<Rightarrow> 'v \<Rightarrow> 'v obj" where
  "obj_insert [] k v = [(k, v)]"
| "obj_insert ((k', v') # ob) k v =
     (if key_before k k' then (k, v) # (k', v') # ob else (k', v') # obj_insert ob k v)"

fun obj_update :: "'v obj \<Rightarrow> string \<Rightarrow> 'v \<Rightarrow> 'v obj" where
  "obj_update [] k v = []"
| "obj_update ((k', v') # ob) k v =
     (if k' = k then (k', v) # ob else (k', v') # obj_update ob k v)"

text \<open>
  \<open>ob[k] = v\<close>: an existing property keeps its place, a new one is created.
\<close>

definition obj_set :: "'v obj \<Rightarrow> string \<Rightarrow> 'v \<Rightarrow> 'v obj" where
  "obj_set ob k v = (if k \<in> set (obj_keys ob) then obj_update ob k v else obj_insert ob k v)"

section \<open>The injection pragma as a regular expression\<close>

text \<open>
  \<open>compile\<close> builds \<open>new RegExp('^\\s*#pragma\\s+tangram:\\s+' + key + '\\s*$', 'm')\<close> for
  each key, and \<open>/^\s*#pragma\s+tangram:\s+\w+\s*$/gm\<close> for the clean-up. Both are matched
  here by hand, following the backtracking matcher of the language.

  \<open>strip_prefix p s\<close> matches the literal \<open>p\<close> at the start of \<open>s\<close> and returns the rest.
\<close>

fun strip_prefix :: "string \<Rightarrow> string \<Rightarrow> string option" where
  "strip_prefix [] s = Some s"
| "strip_prefix (p # ps) [] = None"
| "strip_prefix (p # ps) (c # cs) = (if p = c then strip_prefix ps cs else None)"

text \<open>
  \<open>\s+\<close> followed by something that cannot start with white space: the greedy run is
  the only way to match, and it must not be empty.
\<close>

definition spaces1 :: "string \<Rightarrow> string option" where
  "spaces1 s = (case s of [] \<Rightarrow> None | c # cs \<Rightarrow> if is_space c then Some (dropWhile is_space cs) else None)"

text \<open>
  \<open>\s*#pragma\s+tangram:\s+\<close> at the start of \<open>s\<close>: the rest of the input after it.
\<close>

definition match_pragma_head :: "string \<Rightarrow> string option" where
  "match_pragma_head s =
     (case strip_prefix ''#pragma'' (dropWhile is_space s) of
        None \<Rightarrow> None
      | Some r1 \<Rightarrow>
          (case spaces1 r1 of
             None \<Rightarrow> None
           | Some r2 \<Rightarrow>
               (case strip_prefix ''tangram:'' r2 of
                  None \<Rightarrow> None
                | Some r3 \<Rightarrow> spaces1 r3)))"

text \<open>
  \<open>\s*$\<close> under the \<open>m\<close> flag: \<open>\s*\<close> is greedy, so the matcher first takes the next
  white-space character and tries to finish from there, and only when that fails does
  it stop here, where \<open>$\<close> wants the end of the input or a line terminator next.
\<close>

fun line_end :: "string \<Rightarrow> string option" where
  "line_end [] = Some []"
| "line_end (c # cs) =
     (if is_space c
      then (case line_end cs of
              Some r \<Rightarrow> Some r
            | None \<Rightarrow> if is_line_terminator c then Some (c # cs) else None)
      else None)"

text \<open>
  A key is matched as a literal when it holds no character that is special in a
  pattern, and the deterministic matching of the \<open>\s+\<close> before it is right when it is
  not empty and does not start with white space. The pattern of any other key is left
  to the runtime (the fields \<open>patternError\<close>, \<open>patternTest\<close> and \<open>patternReplace\<close> of the
  library below).
\<close>

definition regex_special :: "char \<Rightarrow> bool" where
  "regex_special c \<longleftrightarrow> c \<in> set (CHR 0x5C # ''^$.|?*+()[]{}'')"

definition plain_key :: "string \<Rightarrow> bool" where
  "plain_key k \<longleftrightarrow> k \<noteq> [] \<and> \<not> is_space (hd k) \<and> list_all (\<lambda>c. \<not> regex_special c) k"

text \<open>
  The pattern of one key, and the clean-up pattern, tried at one line start. In the
  clean-up pattern \<open>\w+\<close> takes the whole run of word characters: after a shorter run
  a word character would come next, where \<open>\s*$\<close> can only go on with white space.
\<close>

definition match_key :: "string \<Rightarrow> string \<Rightarrow> string option" where
  "match_key key s =
     (case match_pragma_head s of
        None \<Rightarrow> None
      | Some r \<Rightarrow> (case strip_prefix key r of None \<Rightarrow> None | Some r' \<Rightarrow> line_end r'))"

definition match_any :: "string \<Rightarrow> string option" where
  "match_any s =
     (case match_pragma_head s of
        None \<Rightarrow> None
      | Some r \<Rightarrow> if takeWhile is_word r = [] then None else line_end (dropWhile is_word r))"

text \<open>
  The search of \<open>match\<close> and of a \<open>replace\<close> without the \<open>g\<close> flag: the leftmost position
  where \<open>^\<close> holds (the start of the input, or just after a line terminator) and the
  pattern matches. The result is the text before the match, the match and the text
  after it.
\<close>

fun find_first :: "(string \<Rightarrow> string option) \<Rightarrow> bool \<Rightarrow> string \<Rightarrow> (string \<times> string \<times> string) option" where
  "find_first m bol [] = None"
| "find_first m bol (c # cs) =
     (case (if bol then m (c # cs) else None) of
        Some r \<Rightarrow> Some ([], take (length (c # cs) - length r) (c # cs), r)
      | None \<Rightarrow>
          (case find_first m (is_line_terminator c) cs of
             None \<Rightarrow> None
           | Some (b, x, a) \<Rightarrow> Some (c # b, x, a)))"

text \<open>
  The replacement text of \<open>replace\<close> is a template: \<open>$$\<close> stands for a dollar sign,
  \<open>$&\<close> for the match, \<open>$`\<close> for the text before it and \<open>$'\<close> for the text after it.
  The patterns have no capture group, so \<open>$1\<close> and the like stay as they are.
\<close>

fun expand_replacement :: "string \<Rightarrow> string \<Rightarrow> string \<Rightarrow> string \<Rightarrow> string" where
  "expand_replacement [] b x a = []"
| "expand_replacement [c] b x a = [c]"
| "expand_replacement (c # d # r) b x a =
     (if c = CHR 0x24 then
        (if d = CHR 0x24 then CHR 0x24 # expand_replacement r b x a
         else if d = CHR 0x26 then x @ expand_replacement r b x a
         else if d = CHR 0x60 then b @ expand_replacement r b x a
         else if d = CHR 0x27 then a @ expand_replacement r b x a
         else c # expand_replacement (d # r) b x a)
      else c # expand_replacement (d # r) b x a)"

definition replace_first :: "(string \<Rightarrow> string option) \<Rightarrow> string \<Rightarrow> string \<Rightarrow> string" where
  "replace_first m src s =
     (case find_first m True s of
        None \<Rightarrow> s
      | Some (b, x, a) \<Rightarrow> b @ expand_replacement src b x a @ a)"

text \<open>
  A match is never empty: it holds \<open>#pragma\<close>. What is left after it is shorter than
  the input, which is what lets the global replace below go on from there.
\<close>

lemma strip_prefix_length: "strip_prefix p s = Some r \<Longrightarrow> length s = length p + length r"
  by (induction p s rule: strip_prefix.induct) (auto split: if_splits)

lemma spaces1_length: "spaces1 s = Some r \<Longrightarrow> length r < length s"
proof -
  assume a: "spaces1 s = Some r"
  then obtain c cs where s: "s = c # cs" and r: "r = dropWhile is_space cs"
    by (auto simp: spaces1_def split: list.splits if_splits)
  have "length (dropWhile is_space cs) \<le> length cs"
    by (rule length_dropWhile_le)
  with s r show ?thesis by simp
qed

lemma match_pragma_head_length: "match_pragma_head s = Some r \<Longrightarrow> length r < length s"
proof -
  assume a: "match_pragma_head s = Some r"
  then obtain r1 r2 r3 where
    1: "strip_prefix ''#pragma'' (dropWhile is_space s) = Some r1" and
    2: "spaces1 r1 = Some r2" and
    3: "strip_prefix ''tangram:'' r2 = Some r3" and
    4: "spaces1 r3 = Some r"
    by (auto simp: match_pragma_head_def split: option.splits)
  have "length (dropWhile is_space s) \<le> length s"
    by (rule length_dropWhile_le)
  with strip_prefix_length[OF 1] spaces1_length[OF 2] strip_prefix_length[OF 3] spaces1_length[OF 4]
  show ?thesis by simp
qed

lemma line_end_length: "line_end s = Some r \<Longrightarrow> length r \<le> length s"
  by (induction s arbitrary: r) (auto split: if_splits option.splits)

lemma match_any_length: "match_any s = Some r \<Longrightarrow> length r < length s"
proof -
  assume a: "match_any s = Some r"
  then obtain r0 where 1: "match_pragma_head s = Some r0" and 2: "line_end (dropWhile is_word r0) = Some r"
    by (auto simp: match_any_def split: option.splits if_splits)
  have "length (dropWhile is_word r0) \<le> length r0"
    by (rule length_dropWhile_le)
  with match_pragma_head_length[OF 1] line_end_length[OF 2] show ?thesis by simp
qed

text \<open>
  \<open>s.replace(/^\s*#pragma\s+tangram:\s+\w+\s*$/gm, '')\<close>: every match is dropped, and the
  search goes on where the match ended. There \<open>^\<close> looks at the character before, which
  is the last one of the match.
\<close>

function strip_pragmas :: "bool \<Rightarrow> string \<Rightarrow> string" where
  "strip_pragmas bol [] = []"
| "strip_pragmas bol (c # cs) =
     (case (if bol then match_any (c # cs) else None) of
        Some r \<Rightarrow>
          strip_pragmas (is_line_terminator (last (take (length (c # cs) - length r) (c # cs)))) r
      | None \<Rightarrow> c # strip_pragmas (is_line_terminator c) cs)"
  by pat_completeness auto
termination
  by (relation "measure (\<lambda>(bol, s). length s)") (auto split: if_splits dest: match_any_length)

section \<open>The shader program\<close>

text \<open>
  Values that are only stored and handed on: uniform values, the sample values of the
  dependent uniforms and the data of a tile. Numbers are integers here.
\<close>

datatype jsval =
    JUndefined | JNull | JBool bool | JNum int | JStr string
  | JArr "jsval list" | JObj "(string \<times> jsval) list"

fun truthy :: "jsval \<Rightarrow> bool" where
  "truthy JUndefined = False"
| "truthy JNull = False"
| "truthy (JBool b) = b"
| "truthy (JNum n) = (n \<noteq> 0)"
| "truthy (JStr s) = (s \<noteq> [])"
| "truthy (JArr xs) = True"
| "truthy (JObj ps) = True"

text \<open>
  The value of a define, by the branch of \<open>buildDefineString\<close> it takes: a boolean, an
  integer-valued number, which \<open>toFixed(1)\<close> prints, or any other value that is no
  object (another number, a string, \<open>null\<close>, \<open>undefined\<close>), given by the text
  \<open>'' + value\<close>.
\<close>

datatype define_value = DBool bool | DInt int | DOther string

text \<open>A transform is a string or an array of strings.\<close>

datatype transform = Single string | Multiple "string list"

text \<open>The calls made on the graphics context and on the texture objects bound to it.\<close>

datatype gl_call =
    UpdateProgram "nat option" string string
  | UseProgram "nat option"
  | GetUniformLocation "nat option" string
  | UniformCall string nat "jsval list"
  | TextureCreate jsval
  | TextureBind jsval int

datatype js_error =
    Already_compiling
  | Reduce_of_empty_array
  | Compile_error string
  | Not_a_function string
  | Not_an_object string
  | Syntax_error string

record uniform_entry =
  u_name :: string
  u_location :: "nat option"
  u_method :: string
  u_values :: "jsval list"

record parsed_uniform =
  pu_type :: string
  pu_method :: string
  pu_name :: string
  pu_value :: jsval

text \<open>
  What the program takes from the modules it imports and from the runtime, as
  parameters.

  From the modules: \<open>strip-comments\<close>, the helpers of \<open>GLSL\<close>, \<open>GL.updateProgram\<close> (which
  compiles and links, and throws with the compiler's diagnostic, here \<open>Inl\<close>), and the
  answers of the graphics context and of the texture registry of \<open>GLTexture\<close>. The
  context is known by the calls made on it so far, so its answers are functions of that
  history.

  From the runtime:
  \<^item> \<open>toUpperCase\<close> is \<open>String.prototype.toUpperCase\<close>;
  \<^item> \<open>numberToString n\<close> is the text of \<open>'' + n\<close> for an integer-valued number of
    magnitude \<open>10^21\<close> or more (an exponent form), which is also what \<open>toFixed\<close> gives
    for it;
  \<^item> \<open>inherited k\<close> tells whether \<open>Object.prototype\<close> has a property named \<open>k\<close> other than
    \<open>__proto__\<close> (\<open>constructor\<close>, \<open>toString\<close> and so on: all of them functions), and
    \<open>inheritedArray k\<close> whether \<open>Array.prototype\<close> or \<open>Object.prototype\<close> has one;
  \<^item> for a key \<open>k\<close> that is not matched as a literal here, \<open>patternError k\<close> tells
    whether \<open>new RegExp('^\\s*#pragma\\s+tangram:\\s+' + k + '\\s*$', 'm')\<close> throws a
    \<open>SyntaxError\<close>, \<open>patternTest k s\<close> whether \<open>s.match\<close> of that pattern finds a match,
    and \<open>patternReplace k s source\<close> is \<open>s.replace\<close> of that pattern by \<open>source\<close>;
  \<^item> \<open>arrayLike ps\<close> is what the loop \<open>for (f = x.length - 1; f >= 0; f--) x[f]\<close> reads
    on an object \<open>x\<close> with the properties \<open>ps\<close> that is not an array, listed from index 0
    upwards (nothing when \<open>x\<close> has no \<open>length\<close>).
\<close>

record library =
  strip :: "string \<Rightarrow> string"
  isUniformDefined :: "string \<Rightarrow> string \<Rightarrow> bool"
  isSymbolReferenced :: "string \<Rightarrow> string \<Rightarrow> bool"
  defineUniform :: "string \<Rightarrow> jsval \<Rightarrow> string"
  parseUniforms :: "jsval obj \<Rightarrow> parsed_uniform list"
  updateProgram :: "gl_call list \<Rightarrow> nat option \<Rightarrow> string \<Rightarrow> string \<Rightarrow> string + nat"
  getUniformLocation :: "gl_call list \<Rightarrow> nat option \<Rightarrow> string \<Rightarrow> nat option"
  hasMethod :: "string \<Rightarrow> bool"
  textureKnown :: "gl_call list \<Rightarrow> jsval \<Rightarrow> bool"
  toUpperCase :: "string \<Rightarrow> string"
  numberToString :: "int \<Rightarrow> string"
  inherited :: "string \<Rightarrow> bool"
  inheritedArray :: "string \<Rightarrow> bool"
  patternError :: "string \<Rightarrow> bool"
  patternTest :: "string \<Rightarrow> string \<Rightarrow> bool"
  patternReplace :: "string \<Rightarrow> string \<Rightarrow> string \<Rightarrow> string"
  arrayLike :: "jsval obj \<Rightarrow> jsval list"

text \<open>
  A read \<open>ob[k]\<close> of a name that the plain object \<open>ob\<close> does not have itself finds
  something when \<open>inherits k\<close> holds: a function, or \<open>Object.prototype\<close> for \<open>__proto__\<close>.
\<close>

definition inherits :: "library \<Rightarrow> string \<Rightarrow> bool" where
  "inherits lib k \<longleftrightarrow> k = proto_key \<or> inherited lib k"

text \<open>
  The fields of a \<open>GLProgram\<close>, and the state shared by all programs. The fields
  \<open>program\<close>, \<open>defines\<close>, \<open>transforms\<close>, \<open>id\<close> and \<open>name\<close> are \<open>gl_program\<close>,
  \<open>prog_defines\<close>, \<open>prog_transforms\<close>, \<open>prog_id\<close> and \<open>prog_name\<close> here; \<open>GLProgram.defines\<close>
  and \<open>GLProgram.transforms\<close> are \<open>g_defines\<close> and \<open>g_transforms\<close>, and \<open>current\<close> holds the
  id of the program in use. A table of defines or of transforms is what \<open>for ... in\<close>
  visits on it, each name with the value read for it.
\<close>

record glprogram =
  gl_program :: "nat option"
  compiled :: bool
  compiling :: bool
  prog_defines :: "define_value obj"
  prog_transforms :: "transform obj"
  dependent_uniforms :: "jsval obj option"
  uniforms :: "uniform_entry obj"
  attribs :: "nat option obj"
  vertex_shader :: string
  fragment_shader :: string
  computed_vertex_shader :: string
  computed_fragment_shader :: string
  prog_id :: nat
  prog_name :: "string option"
  texture_unit :: int

record globals =
  g_defines :: "define_value obj"
  g_transforms :: "transform obj"
  current :: "nat option"
  gl_calls :: "gl_call list"

definition gl_call :: "gl_call \<Rightarrow> globals \<Rightarrow> globals" where
  "gl_call c g = g\<lparr>gl_calls := gl_calls g @ [c]\<rparr>"

subsection \<open>Composing the shader sources\<close>

definition newline :: string where
  "newline = [CHR 0x0A]"

text \<open>
  \<open>buildDefineList\<close>: the global defines, then the program's own over them, written
  with \<open>defines[d] = v\<close> on a new object. For \<open>__proto__\<close> that assignment goes to the
  accessor, which does nothing with a value that is no object: no property is made.
\<close>

definition define_entry :: "string \<times> define_value \<Rightarrow> define_value obj \<Rightarrow> define_value obj" where
  "define_entry dv acc = (case dv of (d, v) \<Rightarrow> if d = proto_key then acc else obj_set acc d v)"

definition buildDefineList :: "globals \<Rightarrow> glprogram \<Rightarrow> define_value obj" where
  "buildDefineList g p = fold define_entry (prog_defines p) (fold define_entry (g_defines g) [])"

text \<open>
  \<open>buildShaderTransformList\<close> fills a new object \<open>transforms\<close>. What it builds is the
  lists that \<open>transforms\<close> has as its own properties and, when an assignment to
  \<open>__proto__\<close> has replaced its prototype by an array, that array.
\<close>

definition as_list :: "transform \<Rightarrow> string list" where
  "as_list t = (case t of Single x \<Rightarrow> [x] | Multiple xs \<Rightarrow> xs)"

record transform_table =
  own_lists :: "string list obj"
  array_proto :: "string list option"

text \<open>
  The first loop (lines 199 to 208), one turn: \<open>transforms[d]\<close> becomes a new array with
  the global entries, a scalar as a one-element array. For \<open>__proto__\<close> the two
  assignments replace the prototype of \<open>transforms\<close>, and the \<open>push\<close> goes to the array
  that the accessor reads back.
\<close>

definition global_entry :: "string \<times> transform \<Rightarrow> transform_table \<Rightarrow> transform_table" where
  "global_entry dt tt =
     (case dt of (d, t) \<Rightarrow>
        if d = proto_key then tt\<lparr>array_proto := Some (as_list t)\<rparr>
        else tt\<lparr>own_lists := obj_set (own_lists tt) d (as_list t)\<rparr>)"

text \<open>
  What \<open>transforms[d]\<close> reads on the array that has become the prototype, for a name
  \<open>d\<close> other than \<open>__proto__\<close> that \<open>transforms\<close> does not have itself, is truthy or not:
  an element (a string), the \<open>length\<close>, or a function found further up.
\<close>

definition array_reads_truthy :: "library \<Rightarrow> string list \<Rightarrow> string \<Rightarrow> bool" where
  "array_reads_truthy lib xs d =
     (case array_index d of
        Some i \<Rightarrow> if i < int (length xs) then xs ! nat i \<noteq> [] else inheritedArray lib d
      | None \<Rightarrow> if d = ''length'' then xs \<noteq> [] else inheritedArray lib d)"

text \<open>
  The second loop (lines 209 to 218), one turn: \<open>transforms[d] = transforms[d] || []\<close>
  and then a \<open>push\<close> of the program's entries. The list that \<open>transforms\<close> has for \<open>d\<close>
  gets them; a name it does not have gets a new list, unless the read finds something
  truthy further up: that is no array (but for \<open>__proto__\<close> when the prototype is one),
  it has no \<open>push\<close>, and the call throws a \<open>TypeError\<close>.
\<close>

definition program_entry :: "library \<Rightarrow> string \<times> transform \<Rightarrow> transform_table \<Rightarrow> js_error + transform_table" where
  "program_entry lib dt tt =
     (case dt of (d, t) \<Rightarrow>
        (case obj_get (own_lists tt) d of
           Some xs \<Rightarrow> Inr (tt\<lparr>own_lists := obj_set (own_lists tt) d (xs @ as_list t)\<rparr>)
         | None \<Rightarrow>
             (case array_proto tt of
                None \<Rightarrow>
                  if inherits lib d then Inl (Not_a_function ''push'')
                  else Inr (tt\<lparr>own_lists := obj_set (own_lists tt) d (as_list t)\<rparr>)
              | Some xs \<Rightarrow>
                  if d = proto_key then Inr (tt\<lparr>array_proto := Some (xs @ as_list t)\<rparr>)
                  else if array_reads_truthy lib xs d then Inl (Not_a_function ''push'')
                  else Inr (tt\<lparr>own_lists := obj_set (own_lists tt) d (as_list t)\<rparr>))))"

fun program_entries :: "library \<Rightarrow> transform obj \<Rightarrow> transform_table \<Rightarrow> js_error + transform_table" where
  "program_entries lib [] tt = Inr tt"
| "program_entries lib (dt # dts) tt =
     (case program_entry lib dt tt of
        Inl e \<Rightarrow> Inl e
      | Inr tt' \<Rightarrow> program_entries lib dts tt')"

definition buildShaderTransformList :: "library \<Rightarrow> globals \<Rightarrow> glprogram \<Rightarrow> js_error + transform_table" where
  "buildShaderTransformList lib g p =
     program_entries lib (prog_transforms p)
       (fold global_entry (g_transforms g) \<lparr>own_lists = [], array_proto = None\<rparr>)"

text \<open>
  What \<open>for (key in transforms)\<close> visits in \<open>compile\<close>, each key with \<open>transforms[key]\<close>:
  the own properties, which are lists, and then the indices of the array that has
  become the prototype, where no own property has the name, with its elements, which
  are strings.
\<close>

definition loop_entries :: "transform_table \<Rightarrow> transform obj" where
  "loop_entries tt =
     map (\<lambda>(k, xs). (k, Multiple xs)) (own_lists tt)
     @ (case array_proto tt of
          None \<Rightarrow> []
        | Some xs \<Rightarrow>
            filter (\<lambda>(k, t). k \<notin> set (obj_keys (own_lists tt)))
              (map (\<lambda>i. (show_nat i, Single (xs ! i))) [0..<length xs]))"

text \<open>
  \<open>transform.reduce((prev, cur) => `${prev}\n${cur}`)\<close>, with no initial value: a
  \<open>TypeError\<close> on the empty array.
\<close>

definition reduce_join :: "string list \<Rightarrow> js_error + string" where
  "reduce_join xs =
     (case xs of
        [] \<Rightarrow> Inl Reduce_of_empty_array
      | x # rest \<Rightarrow> Inr (foldl (\<lambda>prev cur. prev @ newline @ cur) x rest))"

text \<open>The name of the define of line 144.\<close>

definition transform_define :: "library \<Rightarrow> string \<Rightarrow> string" where
  "transform_define lib key =
     ''TANGRAM_TRANSFORM_'' @ toUpperCase lib (replace_first_char (CHR 0x20) (CHR ''_'') key)"

text \<open>
  The pattern of a key: matched by hand when the key is plain, the runtime's
  otherwise.
\<close>

definition pattern_throws :: "library \<Rightarrow> string \<Rightarrow> bool" where
  "pattern_throws lib key \<longleftrightarrow> \<not> plain_key key \<and> patternError lib key"

definition marker_found :: "library \<Rightarrow> string \<Rightarrow> string \<Rightarrow> bool" where
  "marker_found lib key s \<longleftrightarrow>
     (if plain_key key then find_first (match_key key) True s \<noteq> None
      else \<not> patternError lib key \<and> patternTest lib key s)"

definition marker_replace :: "library \<Rightarrow> string \<Rightarrow> string \<Rightarrow> string \<Rightarrow> string" where
  "marker_replace lib key source s =
     (if plain_key key then replace_first (match_key key) source s
      else patternReplace lib key s source)"

text \<open>
  One turn of the loop over the transform list (lines 112 to 145), on the two computed
  sources and the defines. A list is an array and so never falsy; the \<open>continue\<close> of
  line 114 is taken for the empty string only. The pattern is built before anything
  is changed, and so is the joined source, so a turn that throws leaves the three as
  they were.
\<close>

type_synonym sources = "string \<times> string \<times> define_value obj"

definition inject_transform :: "library \<Rightarrow> string \<times> transform \<Rightarrow> sources \<Rightarrow> js_error + sources" where
  "inject_transform lib kt st =
     (case kt of (key, transform) \<Rightarrow>
      case st of (vs, fs, defs) \<Rightarrow>
        if transform = Single [] then Inr (vs, fs, defs)
        else if pattern_throws lib key then Inl (Syntax_error key)
        else
          let inject_vertex = marker_found lib key vs;
              inject_fragment = marker_found lib key fs
          in if \<not> inject_vertex \<and> \<not> inject_fragment then Inr (vs, fs, defs)
             else
               (case (case transform of Single s \<Rightarrow> Inr s | Multiple xs \<Rightarrow> reduce_join xs) of
                  Inl e \<Rightarrow> Inl e
                | Inr source \<Rightarrow>
                    Inr (if inject_vertex then marker_replace lib key source vs else vs,
                         if inject_fragment then marker_replace lib key source fs else fs,
                         obj_set defs (transform_define lib key) (DBool True))))"

text \<open>The loop: it stops at the first turn that throws, with what the turns before did.\<close>

fun inject_all :: "library \<Rightarrow> transform obj \<Rightarrow> sources \<Rightarrow> js_error option \<times> sources" where
  "inject_all lib [] st = (None, st)"
| "inject_all lib (kt # kts) st =
     (case inject_transform lib kt st of
        Inl e \<Rightarrow> (Some e, st)
      | Inr st' \<Rightarrow> inject_all lib kts st')"

text \<open>
  \<open>GLProgram.buildDefineString\<close>. For an integer-valued number \<open>toFixed(1)\<close> gives the
  decimal numeral and \<open>.0\<close> below \<open>10^21\<close>, and the text of the number from there on.
\<close>

definition define_line :: "library \<Rightarrow> string \<times> define_value \<Rightarrow> string" where
  "define_line lib dv =
     (case dv of
        (d, DBool False) \<Rightarrow> []
      | (d, DBool True) \<Rightarrow> ''#define '' @ d @ newline
      | (d, DInt n) \<Rightarrow>
          ''#define '' @ d @ '' ''
            @ (if \<bar>n\<bar> < 1000000000000000000000 then show_int n @ ''.0'' else numberToString lib n)
            @ newline
      | (d, DOther v) \<Rightarrow> ''#define '' @ d @ '' '' @ v @ newline)"

definition buildDefineString :: "library \<Rightarrow> define_value obj \<Rightarrow> string" where
  "buildDefineString lib defs = concat (map (define_line lib) defs)"

text \<open>
  \<open>ensureUniforms\<close>: the loop over the dependent uniforms collects the declarations to
  inject, in the order of the names, for each of the two comment-stripped sources.
\<close>

definition needs_uniform :: "library \<Rightarrow> string \<Rightarrow> string \<Rightarrow> bool" where
  "needs_uniform lib name src \<longleftrightarrow> \<not> isUniformDefined lib name src \<and> isSymbolReferenced lib name src"

fun uniform_injections :: "library \<Rightarrow> jsval obj \<Rightarrow> string \<Rightarrow> string list" where
  "uniform_injections lib [] src = []"
| "uniform_injections lib ((name, v) # us) src =
     (if needs_uniform lib name src
      then defineUniform lib name v # uniform_injections lib us src
      else uniform_injections lib us src)"

definition inject_uniforms :: "library \<Rightarrow> jsval obj \<Rightarrow> string \<Rightarrow> string" where
  "inject_uniforms lib us computed =
     (let injections = uniform_injections lib us (strip lib computed)
      in if injections \<noteq> [] then join newline injections @ computed else computed)"

definition ensureUniforms :: "library \<Rightarrow> jsval obj option \<Rightarrow> string \<times> string \<Rightarrow> string \<times> string" where
  "ensureUniforms lib us cs =
     (case us of
        None \<Rightarrow> cs
      | Some u \<Rightarrow> (inject_uniforms lib u (fst cs), inject_uniforms lib u (snd cs)))"

text \<open>The program info of the comment line: the name, when there is one, and the id.\<close>

definition program_info :: "glprogram \<Rightarrow> string" where
  "program_info p =
     (case prog_name p of
        None \<Rightarrow> ''id '' @ show_nat (prog_id p)
      | Some n \<Rightarrow> if n = [] then ''id '' @ show_nat (prog_id p)
                  else n @ '' / id '' @ show_nat (prog_id p))"

text \<open>
  Lines 147 to 164 of \<open>compile\<close>, on what the loop left: the clean-up of the pragmas,
  the defines, the uniforms and the comment line.
\<close>

definition finish_source :: "library \<Rightarrow> glprogram \<Rightarrow> define_value obj \<Rightarrow> string \<times> string \<Rightarrow> string \<times> string" where
  "finish_source lib p defs cs =
     (let define_str = buildDefineString lib defs;
          vs = define_str @ strip_pragmas True (fst cs);
          fs = define_str @ strip_pragmas True (snd cs);
          (vs', fs') = ensureUniforms lib (dependent_uniforms p) (vs, fs)
      in (''// Program: '' @ program_info p @ newline @ vs',
          ''// Program: '' @ program_info p @ newline @ fs'))"

subsection \<open>Uniforms\<close>

definition use :: "glprogram \<Rightarrow> globals \<Rightarrow> globals" where
  "use p g =
     (if \<not> compiled p then g
      else (if current g \<noteq> Some (prog_id p) then gl_call (UseProgram (gl_program p)) g else g)
             \<lparr>current := Some (prog_id p)\<rparr>)"

text \<open>
  \<open>updateUniform\<close>: \<open>this.gl[uniform.method]\<close> is undefined for a method the context does
  not have, and \<open>.apply\<close> on it throws.
\<close>

definition updateUniform :: "library \<Rightarrow> string \<Rightarrow> glprogram \<Rightarrow> globals \<Rightarrow> js_error option \<times> globals" where
  "updateUniform lib name p g =
     (if \<not> compiled p then (None, g)
      else
        (case obj_get (uniforms p) name of
           None \<Rightarrow> (None, g)
         | Some u \<Rightarrow>
             (case u_location u of
                None \<Rightarrow> (None, g)
              | Some loc \<Rightarrow>
                  if hasMethod lib (u_method u)
                  then (None, gl_call (UniformCall (u_method u) loc (u_values u)) (use p g))
                  else (Some (Not_a_function (u_method u)), use p g))))"

definition uniform :: "library \<Rightarrow> string \<Rightarrow> string \<Rightarrow> jsval list \<Rightarrow> glprogram \<Rightarrow> globals
    \<Rightarrow> js_error option \<times> glprogram \<times> globals" where
  "uniform lib method name vals p g =
     (if \<not> compiled p then (None, p, g)
      else
        let known = (case obj_get (uniforms p) name of None \<Rightarrow> None | Some u \<Rightarrow> u_location u);
            loc = (case known of
                     Some l \<Rightarrow> Some l
                   | None \<Rightarrow> getUniformLocation lib (gl_calls g) (gl_program p) name);
            g1 = (case known of
                    Some l \<Rightarrow> g
                  | None \<Rightarrow> gl_call (GetUniformLocation (gl_program p) name) g);
            p1 = p\<lparr>uniforms := obj_set (uniforms p) name
                   \<lparr>u_name = name, u_location = loc, u_method = ''uniform'' @ method, u_values = vals\<rparr>\<rparr>
        in (case updateUniform lib name p1 g1 of (e, g2) \<Rightarrow> (e, p1, g2)))"

text \<open>
  \<open>setTextureUniform\<close>: the texture is looked up by name and created when it is not
  known, bound to the current unit, and the unit is the uniform's value.
\<close>

definition setTextureUniform :: "library \<Rightarrow> string \<Rightarrow> jsval \<Rightarrow> glprogram \<Rightarrow> globals
    \<Rightarrow> js_error option \<times> glprogram \<times> globals" where
  "setTextureUniform lib uniform_name texture_name p g =
     (let g1 = (if textureKnown lib (gl_calls g) texture_name then g
                else gl_call (TextureCreate texture_name) g);
          g2 = gl_call (TextureBind texture_name (texture_unit p)) g1
      in (case uniform lib ''1i'' uniform_name [JNum (texture_unit p)] p g2 of
            (Some e, p1, g3) \<Rightarrow> (Some e, p1, g3)
          | (None, p1, g3) \<Rightarrow> (None, p1\<lparr>texture_unit := texture_unit p1 + 1\<rparr>, g3)))"

fun set_each :: "library \<Rightarrow> parsed_uniform list \<Rightarrow> glprogram \<Rightarrow> globals
    \<Rightarrow> js_error option \<times> glprogram \<times> globals" where
  "set_each lib [] p g = (None, p, g)"
| "set_each lib (u # us) p g =
     (case (if pu_type u = ''sampler2D''
            then setTextureUniform lib (pu_name u) (pu_value u) p g
            else uniform lib (pu_method u) (pu_name u) [pu_value u] p g) of
        (Some e, p1, g1) \<Rightarrow> (Some e, p1, g1)
      | (None, p1, g1) \<Rightarrow> set_each lib us p1 g1)"

definition setUniforms :: "library \<Rightarrow> jsval obj \<Rightarrow> int option \<Rightarrow> glprogram \<Rightarrow> globals
    \<Rightarrow> js_error option \<times> glprogram \<times> globals" where
  "setUniforms lib us unit p g =
     (if \<not> compiled p then (None, p, g)
      else set_each lib (parseUniforms lib us)
             (p\<lparr>texture_unit := (case unit of Some n \<Rightarrow> n | None \<Rightarrow> 0)\<rparr>) g)"

text \<open>\<open>refreshUniforms\<close>: each known uniform gets its location again and is set again.\<close>

fun refresh_each :: "library \<Rightarrow> string list \<Rightarrow> glprogram \<Rightarrow> globals
    \<Rightarrow> js_error option \<times> glprogram \<times> globals" where
  "refresh_each lib [] p g = (None, p, g)"
| "refresh_each lib (u # us) p g =
     (case obj_get (uniforms p) u of
        None \<Rightarrow> (Some (Not_an_object u), p, g)
      | Some entry \<Rightarrow>
          let loc = getUniformLocation lib (gl_calls g) (gl_program p) u;
              g1 = gl_call (GetUniformLocation (gl_program p) u) g;
              p1 = p\<lparr>uniforms := obj_set (uniforms p) u (entry\<lparr>u_location := loc\<rparr>)\<rparr>
          in (case updateUniform lib u p1 g1 of
                (Some e, g2) \<Rightarrow> (Some e, p1, g2)
              | (None, g2) \<Rightarrow> refresh_each lib us p1 g2))"

definition refreshUniforms :: "library \<Rightarrow> glprogram \<Rightarrow> globals \<Rightarrow> js_error option \<times> glprogram \<times> globals" where
  "refreshUniforms lib p g =
     (if \<not> compiled p then (None, p, g) else refresh_each lib (obj_keys (uniforms p)) p g)"

definition refreshAttributes :: "glprogram \<Rightarrow> glprogram" where
  "refreshAttributes p = p\<lparr>attribs := []\<rparr>"

subsection \<open>compile\<close>

text \<open>
  Lines 97 to 164: the sources are composed from the copies of the templates that
  lines 94 and 95 put in the computed sources. The result is the error of the loop,
  if it threw, and the two sources as they stand then.
\<close>
text \<open>
  Lines 97 to 164: the sources are composed from the copies of the templates that
  lines 94 and 95 put in the computed sources. The result is the error thrown on the
  way, if any (by \<open>buildShaderTransformList\<close>, or by a turn of the loop), and
  the two sources as they stand then.
\<close>

definition compose_sources :: "library \<Rightarrow> globals \<Rightarrow> glprogram \<Rightarrow> js_error option \<times> string \<times> string" where
  "compose_sources lib g p =
     (case buildShaderTransformList lib g p of
        Inl e \<Rightarrow> (Some e, computed_vertex_shader p, computed_fragment_shader p)
      | Inr transforms \<Rightarrow>
          (case inject_all lib (loop_entries transforms)
                  (computed_vertex_shader p, computed_fragment_shader p, buildDefineList g p) of
             (Some e, (vs, fs, defs)) \<Rightarrow> (Some e, vs, fs)
           | (None, (vs, fs, defs)) \<Rightarrow>
               (case finish_source lib p defs (vs, fs) of (vs', fs') \<Rightarrow> (None, vs', fs'))))"

text \<open>
  Lines 166 to 181: the program is compiled and linked. On a failure the \<open>catch\<close>
  drops the program object, leaves the program uncompiled and throws; on success the
  program is used, and the uniforms and the attributes are refreshed.
\<close>

definition link_program :: "library \<Rightarrow> glprogram \<Rightarrow> globals \<Rightarrow> js_error option \<times> glprogram \<times> globals" where
  "link_program lib p g =
     (let g1 = gl_call (UpdateProgram (gl_program p) (computed_vertex_shader p)
                          (computed_fragment_shader p)) g
      in (case updateProgram lib (gl_calls g) (gl_program p) (computed_vertex_shader p)
                 (computed_fragment_shader p) of
            Inl diagnostic \<Rightarrow>
              (Some (Compile_error diagnostic),
               p\<lparr>gl_program := None, compiled := False, compiling := False\<rparr>, g1)
          | Inr handle \<Rightarrow>
              let p1 = p\<lparr>gl_program := Some handle, compiled := True, compiling := False\<rparr>
              in (case refreshUniforms lib p1 (use p1 g1) of
                    (Some e, p2, g2) \<Rightarrow> (Some e, p2, g2)
                  | (None, p2, g2) \<Rightarrow> (None, refreshAttributes p2, g2))))"

text \<open>
  \<open>compile\<close>. The result is the error thrown, if any, with the program and the shared
  state as the call leaves them. An error thrown before line 166 leaves \<open>compiling\<close>
  set, with the sources as they stood.
\<close>

definition compile :: "library \<Rightarrow> glprogram \<Rightarrow> globals \<Rightarrow> js_error option \<times> glprogram \<times> globals" where
  "compile lib p g =
     (if compiling p then (Some Already_compiling, p, g)
      else
        let p1 = p\<lparr>compiling := True, compiled := False,
                   computed_vertex_shader := vertex_shader p,
                   computed_fragment_shader := fragment_shader p\<rparr>
        in (case compose_sources lib g p1 of
              (Some e, vs, fs) \<Rightarrow>
                (Some e, p1\<lparr>computed_vertex_shader := vs, computed_fragment_shader := fs\<rparr>, g)
            | (None, vs, fs) \<Rightarrow>
                link_program lib
                  (p1\<lparr>computed_vertex_shader := vs, computed_fragment_shader := fs\<rparr>) g))"

text \<open>
  \<open>GLProgram.removeTransform\<close>, on the global table: \<open>GLProgram.transforms[key] = []\<close>.
  For \<open>__proto__\<close> the assignment replaces the prototype of the table by an empty array,
  which adds nothing to what \<open>for ... in\<close> visits.
\<close>

definition removeTransform :: "string \<Rightarrow> globals \<Rightarrow> globals" where
  "removeTransform key g =
     (if key = proto_key \<and> key \<notin> set (obj_keys (g_transforms g)) then g
      else g\<lparr>g_transforms := obj_set (g_transforms g) key (Multiple [])\<rparr>)"

section \<open>Tiles\<close>

text \<open>
  The fields of a tile that the geometry build reads and writes. \<open>layers\<close> is the raw
  data of the tile by sub-layer name, a plain object; the constructor does not set it,
  so a tile that has not been given its data has none. An order range that has seen no
  feature is \<open>Infinity\<close> and \<open>-Infinity\<close>, here \<open>None\<close>.
\<close>

record 'b tile =
  layers :: "jsval obj option"
  debug_features :: nat
  debug_rendering :: int
  order_min :: "int option"
  order_max :: "int option"
  tile_vertex_data :: "'b obj option"

text \<open>
  The \<open>filter\<close> of a geometry source: a string, a function over the tile's layers
  (which may throw, as any function may), or anything else.
\<close>

datatype geometry_filter =
    Filter_name string
  | Filter_function "jsval obj option \<Rightarrow> js_error + jsval"
  | Filter_other

text \<open>
  What \<open>getGeometryForSource\<close> returns: a value of the data, or what a name that is
  not among the layers of the tile reads on \<open>Object.prototype\<close> (a function, or
  \<open>Object.prototype\<close> itself for \<open>__proto__\<close>).
\<close>

datatype geometry = Data jsval | Inherited string

definition empty_collection :: jsval where
  "empty_collection = JObj [(''type'', JStr ''FeatureCollection''), (''features'', JArr [])]"

text \<open>
  \<open>Tile.getGeometryForSource\<close>. Reading \<open>tile.layers[source.filter]\<close> throws when
  \<open>tile.layers\<close> is undefined. What is read is the layer of that name; for a name that
  is not in the layers it is what the prototype has, which is truthy, or undefined.
\<close>

definition getGeometryForSource :: "library \<Rightarrow> 'b tile \<Rightarrow> geometry_filter option \<Rightarrow> js_error + geometry" where
  "getGeometryForSource lib tile source =
     (case (case source of
              None \<Rightarrow> Inr (Data JUndefined)
            | Some (Filter_name n) \<Rightarrow>
                (case layers tile of
                   None \<Rightarrow> Inl (Not_an_object ''tile.layers'')
                 | Some ls \<Rightarrow>
                     Inr (case obj_get ls n of
                            Some v \<Rightarrow> Data v
                          | None \<Rightarrow> if inherits lib n then Inherited n else Data JUndefined))
            | Some (Filter_function f) \<Rightarrow>
                (case f (layers tile) of Inl e \<Rightarrow> Inl e | Inr v \<Rightarrow> Inr (Data v))
            | Some Filter_other \<Rightarrow> Inr (Data JUndefined)) of
        Inl e \<Rightarrow> Inl e
      | Inr (Inherited n) \<Rightarrow> Inr (Inherited n)
      | Inr (Data v) \<Rightarrow> Inr (Data (if truthy v then v else empty_collection)))"




subsection \<open>The geometry build\<close>

text \<open>
  Styles, rules and the style parser come from other modules; the build takes them as
  parameters. A rule is its \<open>matchFeature\<close>, which works on the array of matched rules.
  The callbacks that take the feature are given the feature as the data has it and
  the name of the layer, which line 516 has written on it as its \<open>layer\<close>.
\<close>

record feature_style =
  fs_order :: int
  fs_layer :: "int option"
  fs_detail :: jsval

datatype style_ref = Style_unnamed | Style_named string | Style_computed "jsval obj \<Rightarrow> string"

record matched_rule =
  rule_visible :: bool
  rule_name :: style_ref
  rule_properties :: jsval

type_synonym rule = "jsval obj \<Rightarrow> matched_rule list \<Rightarrow> matched_rule list"

record ('b, 'vd) style =
  style_name :: string
  parseFeature :: "jsval \<Rightarrow> string \<Rightarrow> matched_rule \<Rightarrow> 'b tile \<Rightarrow> jsval obj \<Rightarrow> feature_style option"
  createVertexData :: 'vd
  buildPolygons :: "jsval \<Rightarrow> feature_style \<Rightarrow> 'vd \<Rightarrow> 'vd"
  buildLines :: "jsval \<Rightarrow> feature_style \<Rightarrow> 'vd \<Rightarrow> 'vd"
  buildPoints :: "jsval \<Rightarrow> feature_style \<Rightarrow> 'vd \<Rightarrow> 'vd"

record ('b, 'vd) style_parser =
  getFeatureParseContext :: "jsval \<Rightarrow> string \<Rightarrow> 'b tile \<Rightarrow> jsval obj"
  default_style_name :: string
  end_buffer :: "'vd \<Rightarrow> 'b"

text \<open>
  The dispatch on the geometry type (lines 572 to 589), on a geometry that is an
  object with the properties given.
\<close>

definition build_geometry_type :: "('b, 'vd) style \<Rightarrow> jsval obj \<Rightarrow> feature_style \<Rightarrow> 'vd \<Rightarrow> 'vd" where
  "build_geometry_type st geometry feature_style vd =
     (let coordinates = (case obj_get geometry ''coordinates'' of Some c \<Rightarrow> c | None \<Rightarrow> JUndefined);
          type = obj_get geometry ''type''
      in if type = Some (JStr ''Polygon'') then buildPolygons st (JArr [coordinates]) feature_style vd
         else if type = Some (JStr ''MultiPolygon'') then buildPolygons st coordinates feature_style vd
         else if type = Some (JStr ''LineString'') then buildLines st (JArr [coordinates]) feature_style vd
         else if type = Some (JStr ''MultiLineString'') then buildLines st coordinates feature_style vd
         else if type = Some (JStr ''Point'') then buildPoints st (JArr [coordinates]) feature_style vd
         else if type = Some (JStr ''MultiPoint'') then buildPoints st coordinates feature_style vd
         else vd)"

definition track_order :: "int \<Rightarrow> 'b tile \<Rightarrow> 'b tile" where
  "track_order n t =
     (let t1 = (case order_min t of
                  None \<Rightarrow> t\<lparr>order_min := Some n\<rparr>
                | Some m \<Rightarrow> if n < m then t\<lparr>order_min := Some n\<rparr> else t)
      in (case order_max t1 of
            None \<Rightarrow> t1\<lparr>order_max := Some n\<rparr>
          | Some m \<Rightarrow> if n > m then t1\<lparr>order_max := Some n\<rparr> else t1))"

text \<open>
  A feature takes the assignment of line 516 when it is an object; an array is one.
  On anything else the assignment throws, the code of a class being strict.
  \<open>feature.geometry\<close> reads the property of an object; an array has none.
\<close>

definition is_object :: "jsval \<Rightarrow> bool" where
  "is_object f = (case f of JObj ps \<Rightarrow> True | JArr xs \<Rightarrow> True | _ \<Rightarrow> False)"

definition feature_geometry :: "jsval \<Rightarrow> jsval" where
  "feature_geometry f =
     (case f of
        JObj ps \<Rightarrow> (case obj_get ps ''geometry'' of Some v \<Rightarrow> v | None \<Rightarrow> JUndefined)
      | _ \<Rightarrow> JUndefined)"

text \<open>
  One turn of the loop over the matched rules (lines 528 to 590), on the parse
  context, the tile and the vertex data by style name. \<open>styles[style_name]\<close> that finds
  no style finds nothing with a \<open>parseFeature\<close>, and the call throws. The vertex data
  of a style is made when \<open>vertex_data[style.name]\<close> reads as nothing; for a name that
  reads on the prototype it is not made, and the builders are handed what was read
  there, which leaves the vertex data as they are. Reading \<open>feature.geometry.type\<close>
  throws when the feature has no geometry; a geometry that is no object has no type.
\<close>

type_synonym ('b, 'vd) build_state = "jsval obj \<times> 'b tile \<times> 'vd obj"

definition build_rule :: "library \<Rightarrow> ('b, 'vd) style_parser \<Rightarrow> ('b, 'vd) style obj \<Rightarrow> jsval \<Rightarrow> string
    \<Rightarrow> matched_rule \<Rightarrow> ('b, 'vd) build_state \<Rightarrow> js_error + ('b, 'vd) build_state" where
  "build_rule lib sp styles feature layer_name rl st =
     (case st of (context, tile, vertex_data) \<Rightarrow>
        if \<not> rule_visible rl then Inr st
        else
          let context' = obj_set context ''style_properties'' (rule_properties rl);
              named = (case rule_name rl of
                         Style_unnamed \<Rightarrow> []
                       | Style_named n \<Rightarrow> n
                       | Style_computed f \<Rightarrow> f context');
              name = (if named = [] then default_style_name sp else named)
          in (case obj_get styles name of
                None \<Rightarrow> Inl (Not_a_function ''style.parseFeature'')
              | Some style \<Rightarrow>
                  (case parseFeature style feature layer_name rl tile context' of
                     None \<Rightarrow> Inr (context', tile, vertex_data)
                   | Some feature_style \<Rightarrow>
                       let tile' = track_order (fs_order feature_style) tile;
                           vertex_data' =
                             (if obj_get vertex_data (style_name style) = None
                                 \<and> \<not> inherits lib (style_name style)
                              then obj_set vertex_data (style_name style) (createVertexData style)
                              else vertex_data);
                           feature_style' = feature_style\<lparr>fs_layer := Some (fs_order feature_style)\<rparr>
                       in (case feature_geometry feature of
                             JUndefined \<Rightarrow> Inl (Not_an_object ''feature.geometry'')
                           | JNull \<Rightarrow> Inl (Not_an_object ''feature.geometry'')
                           | JObj geometry \<Rightarrow>
                               (case obj_get vertex_data' (style_name style) of
                                  None \<Rightarrow> Inr (context', tile', vertex_data')
                                | Some vd \<Rightarrow>
                                    Inr (context', tile',
                                         obj_set vertex_data' (style_name style)
                                           (build_geometry_type style geometry feature_style' vd)))
                           | _ \<Rightarrow> Inr (context', tile', vertex_data')))))"

fun build_rules :: "library \<Rightarrow> ('b, 'vd) style_parser \<Rightarrow> ('b, 'vd) style obj \<Rightarrow> jsval \<Rightarrow> string
    \<Rightarrow> matched_rule list \<Rightarrow> ('b, 'vd) build_state \<Rightarrow> js_error + ('b, 'vd) build_state" where
  "build_rules lib sp styles feature layer_name [] st = Inr st"
| "build_rules lib sp styles feature layer_name (rl # rls) st =
     (case build_rule lib sp styles feature layer_name rl st of
        Inl e \<Rightarrow> Inl e
      | Inr st' \<Rightarrow> build_rules lib sp styles feature layer_name rls st')"

text \<open>
  The rules that match a feature: every rule of the layer adds its matches to one
  array (lines 521 to 525). A layer with no rules has none; neither has a layer whose
  name reads on the prototype, where \<open>for ... in\<close> visits nothing.
\<close>

definition match_rules :: "rule obj option \<Rightarrow> jsval obj \<Rightarrow> matched_rule list" where
  "match_rules layer_rules context =
     (case layer_rules of
        None \<Rightarrow> []
      | Some rs \<Rightarrow> fold (\<lambda>(r, matchFeature) matched. matchFeature context matched) rs [])"

text \<open>
  One turn of the loop over the features of a layer (lines 515 to 592). The feature
  gets its \<open>layer\<close> property first, which throws on a feature that is not an object.
  That the same object in \<open>tile.layers\<close> has the property too is not modelled.
\<close>

definition build_feature :: "library \<Rightarrow> ('b, 'vd) style_parser \<Rightarrow> rule obj option \<Rightarrow> ('b, 'vd) style obj
    \<Rightarrow> string \<Rightarrow> jsval \<Rightarrow> 'b tile \<times> 'vd obj \<Rightarrow> js_error + 'b tile \<times> 'vd obj" where
  "build_feature lib sp layer_rules styles name f st =
     (case st of (tile, vertex_data) \<Rightarrow>
        if \<not> is_object f then Inl (Not_an_object ''feature'')
        else
          let context = getFeatureParseContext sp f name tile;
              matchedRules = match_rules layer_rules context
          in (case build_rules lib sp styles f name matchedRules (context, tile, vertex_data) of
                Inl e \<Rightarrow> Inl e
              | Inr (context', tile', vertex_data') \<Rightarrow>
                  Inr (tile'\<lparr>debug_features := debug_features tile' + 1\<rparr>, vertex_data')))"

fun build_features :: "library \<Rightarrow> ('b, 'vd) style_parser \<Rightarrow> rule obj option \<Rightarrow> ('b, 'vd) style obj
    \<Rightarrow> string \<Rightarrow> jsval list \<Rightarrow> 'b tile \<times> 'vd obj \<Rightarrow> js_error + 'b tile \<times> 'vd obj" where
  "build_features lib sp layer_rules styles name [] st = Inr st"
| "build_features lib sp layer_rules styles name (f # fs) st =
     (case build_feature lib sp layer_rules styles name f st of
        Inl e \<Rightarrow> Inl e
      | Inr st' \<Rightarrow> build_features lib sp layer_rules styles name fs st')"

text \<open>
  What the loop of line 514 reads as \<open>geom.features[f]\<close>, from index 0 upwards.
  Reading \<open>geom.features.length\<close> throws when \<open>geom\<close> has no \<open>features\<close>, as is the case of
  everything but an object of the data with that property. The features are the
  elements of an array, the characters of a string, none for a number or a boolean
  (which have no \<open>length\<close>), and what the runtime reads on any other object.
\<close>

definition features_of :: "library \<Rightarrow> geometry \<Rightarrow> js_error + jsval list" where
  "features_of lib geom =
     (case geom of
        Data (JObj ps) \<Rightarrow>
          (case obj_get ps ''features'' of
             None \<Rightarrow> Inl (Not_an_object ''geom.features'')
           | Some JUndefined \<Rightarrow> Inl (Not_an_object ''geom.features'')
           | Some JNull \<Rightarrow> Inl (Not_an_object ''geom.features'')
           | Some (JArr fs) \<Rightarrow> Inr fs
           | Some (JStr s) \<Rightarrow> Inr (map (\<lambda>c. JStr [c]) s)
           | Some (JObj qs) \<Rightarrow> Inr (arrayLike lib qs)
           | Some (JNum n) \<Rightarrow> Inr []
           | Some (JBool b) \<Rightarrow> Inr [])
      | _ \<Rightarrow> Inl (Not_an_object ''geom.features''))"

text \<open>
  One turn of the loop over the layers (lines 500 to 595): a layer with no geometry is
  skipped, and the features are taken from the last to the first. A layer is given by
  its name and the filter of its geometry, when it has a geometry.
\<close>

definition build_layer :: "library \<Rightarrow> ('b, 'vd) style_parser \<Rightarrow> rule obj obj \<Rightarrow> ('b, 'vd) style obj
    \<Rightarrow> string \<times> geometry_filter option \<Rightarrow> 'b tile \<times> 'vd obj \<Rightarrow> js_error + 'b tile \<times> 'vd obj" where
  "build_layer lib sp rules styles layer st =
     (case layer of (name, geometry) \<Rightarrow>
        (case geometry of
           None \<Rightarrow> Inr st
         | Some flt \<Rightarrow>
             (case getGeometryForSource lib (fst st) (Some flt) of
                Inl e \<Rightarrow> Inl e
              | Inr geom \<Rightarrow>
                  (case features_of lib geom of
                     Inl e \<Rightarrow> Inl e
                   | Inr fs \<Rightarrow> build_features lib sp (obj_get rules name) styles name (rev fs) st))))"

fun build_layers :: "library \<Rightarrow> ('b, 'vd) style_parser \<Rightarrow> rule obj obj \<Rightarrow> ('b, 'vd) style obj
    \<Rightarrow> (string \<times> geometry_filter option) list \<Rightarrow> 'b tile \<times> 'vd obj \<Rightarrow> js_error + 'b tile \<times> 'vd obj" where
  "build_layers lib sp rules styles [] st = Inr st"
| "build_layers lib sp rules styles (l # ls) st =
     (case build_layer lib sp rules styles l st of
        Inl e \<Rightarrow> Inl e
      | Inr st' \<Rightarrow> build_layers lib sp rules styles ls st')"

text \<open>
  \<open>Tile.buildGeometry\<close>, with the two readings of the clock as parameters.
\<close>

definition buildGeometry :: "library \<Rightarrow> ('b, 'vd) style_parser \<Rightarrow> int \<Rightarrow> int \<Rightarrow> 'b tile
    \<Rightarrow> (string \<times> geometry_filter option) list \<Rightarrow> rule obj obj \<Rightarrow> ('b, 'vd) style obj
    \<Rightarrow> js_error + 'b tile" where
  "buildGeometry lib sp t0 t1 tile layers_cfg rules styles =
     (case build_layers lib sp rules styles layers_cfg
             (tile\<lparr>debug_rendering := t0, debug_features := 0\<rparr>, []) of
        Inl e \<Rightarrow> Inl e
      | Inr (tile', vertex_data') \<Rightarrow>
          Inr (tile'\<lparr>tile_vertex_data := Some (map (\<lambda>(m, vd). (m, end_buffer sp vd)) vertex_data'),
                     debug_rendering := t1 - debug_rendering tile'\<rparr>))"

section \<open>The words of the properties\<close>










text \<open>The features that the build reads for a layer.\<close>

definition layer_features :: "library \<Rightarrow> 'b tile \<Rightarrow> string \<times> geometry_filter option \<Rightarrow> jsval list" where
  "layer_features lib tile layer =
     (case snd layer of
        None \<Rightarrow> []
      | Some flt \<Rightarrow>
          (case getGeometryForSource lib tile (Some flt) of
             Inl e \<Rightarrow> []
           | Inr geom \<Rightarrow> (case features_of lib geom of Inl e \<Rightarrow> [] | Inr fs \<Rightarrow> fs)))"

section \<open>Examples\<close>

text \<open>
  A library, a program and a shared state for the examples: comments are not
  stripped, no uniform is declared yet, a symbol is referenced where its name occurs
  in the source, every uniform is declared as a float, every program compiles and
  every uniform has a location. Of the runtime it has what the examples ask for:
  upper case for the ASCII letters, and names that \<open>Object.prototype\<close> and
  \<open>Array.prototype\<close> have in the browsers. The examples have no key with a special
  character, no number from \<open>10^21\<close> on and no object read like an array; the fields for
  these give a fixed answer.
\<close>

fun contains_text :: "string \<Rightarrow> string \<Rightarrow> bool" where
  "contains_text p [] = (p = [])"
| "contains_text p (c # cs) = (strip_prefix p (c # cs) \<noteq> None \<or> contains_text p cs)"

definition ascii_upper :: "char \<Rightarrow> char" where
  "ascii_upper c =
     (let n = (of_char c :: nat) in if 97 \<le> n \<and> n \<le> 122 then char_of (n - 32) else c)"

definition object_names :: "string list" where
  "object_names =
     [''constructor'', ''hasOwnProperty'', ''isPrototypeOf'', ''propertyIsEnumerable'',
      ''toLocaleString'', ''toString'', ''valueOf'', ''__defineGetter__'', ''__defineSetter__'',
      ''__lookupGetter__'', ''__lookupSetter__'']"

definition array_names :: "string list" where
  "array_names =
     [''concat'', ''every'', ''filter'', ''forEach'', ''indexOf'', ''join'', ''lastIndexOf'', ''map'',
      ''pop'', ''push'', ''reduce'', ''reduceRight'', ''reverse'', ''shift'', ''slice'', ''some'',
      ''sort'', ''splice'', ''unshift'']"

definition example_library :: library where
  "example_library =
     \<lparr>strip = (\<lambda>src. src),
      isUniformDefined = (\<lambda>name src. False),
      isSymbolReferenced = (\<lambda>name src. contains_text name src),
      defineUniform = (\<lambda>name v. ''uniform float '' @ name @ '';'' @ newline),
      parseUniforms = map (\<lambda>(n, v). \<lparr>pu_type = ''float'', pu_method = ''1f'', pu_name = n, pu_value = v\<rparr>),
      updateProgram = (\<lambda>calls prog vs fs. Inr 1),
      getUniformLocation = (\<lambda>calls prog name. Some 0),
      hasMethod = (\<lambda>method. True),
      textureKnown = (\<lambda>calls name. False),
      toUpperCase = map ascii_upper,
      numberToString = (\<lambda>n. []),
      inherited = (\<lambda>k. k \<in> set object_names),
      inheritedArray = (\<lambda>k. k \<in> set (array_names @ object_names)),
      patternError = (\<lambda>k. False),
      patternTest = (\<lambda>k s. False),
      patternReplace = (\<lambda>k s source. s),
      arrayLike = (\<lambda>ps. [])\<rparr>"

definition example_program :: glprogram where
  "example_program =
     \<lparr>gl_program = None, compiled = False, compiling = False,
      prog_defines = [], prog_transforms = [], dependent_uniforms = None,
      uniforms = [], attribs = [],
      vertex_shader = ''#pragma tangram: globals'' @ newline @ ''void main() {}'',
      fragment_shader = ''void main() {}'',
      computed_vertex_shader = [], computed_fragment_shader = [],
      prog_id = 0, prog_name = None, texture_unit = 0\<rparr>"

definition example_globals :: globals where
  "example_globals = \<lparr>g_defines = [], g_transforms = [], current = None, gl_calls = []\<rparr>"

definition example_water :: jsval where
  "example_water =
     JObj [(''type'', JStr ''FeatureCollection''),
           (''features'',
            JArr [JObj [(''geometry'', JObj [(''type'', JStr ''Polygon''), (''coordinates'', JArr [])])]])]"

text \<open>A layer with two features and no geometry in them; the second is an array.\<close>

definition example_earth :: jsval where
  "example_earth =
     JObj [(''type'', JStr ''FeatureCollection''),
           (''features'', JArr [JObj [(''id'', JNum 7)], JArr [JNum 1, JNum 2]])]"

definition example_tile :: "nat tile" where
  "example_tile =
     \<lparr>layers = Some [(''earth'', example_earth), (''water'', example_water)],
      debug_features = 0, debug_rendering = 0, order_min = None, order_max = None,
      tile_vertex_data = None\<rparr>"

text \<open>
  An example build: one style, one rule for the layer \<open>water\<close> and none for \<open>earth\<close>.
\<close>

definition example_parser :: "(nat, string list) style_parser" where
  "example_parser =
     \<lparr>getFeatureParseContext = (\<lambda>f name t. [(''feature'', f), (''layer'', JStr name)]),
      default_style_name = ''polygons'',
      end_buffer = length\<rparr>"

definition example_styles :: "(nat, string list) style obj" where
  "example_styles =
     [(''polygons'',
       \<lparr>style_name = ''polygons'',
        parseFeature = (\<lambda>f name r t c. Some \<lparr>fs_order = 3, fs_layer = None, fs_detail = JNull\<rparr>),
        createVertexData = [],
        buildPolygons = (\<lambda>c s vd. vd @ [''polygon'']),
        buildLines = (\<lambda>c s vd. vd @ [''line'']),
        buildPoints = (\<lambda>c s vd. vd @ [''point''])\<rparr>)]"

definition example_rules :: "rule obj obj" where
  "example_rules =
     [(''water'',
       [(''all'', \<lambda>c matched. matched @ [\<lparr>rule_visible = True, rule_name = Style_unnamed,
                                           rule_properties = JNull\<rparr>])])]"

text \<open>
  A program with defines, transforms and dependent uniforms of its own, and a shared
  state with a global define and a global transform.
\<close>

definition example_rainbow :: glprogram where
  "example_rainbow =
     example_program
       \<lparr>prog_defines := [(''DOTS'', DBool True)],
        prog_transforms := [(''globals'', Multiple [''float y;'']), (''color'', Single ''c = 1.;'')],
        dependent_uniforms := Some [(''u_dot_grid_scale'', JNum 2), (''u_dot_scale'', JNum 7)],
        fragment_shader :=
          ''void main() {'' @ newline @ ''  #pragma  tangram: color  '' @ newline
            @ ''float s = u_dot_scale; }''\<rparr>"

definition example_registry :: globals where
  "example_registry =
     example_globals\<lparr>g_defines := [(''SCALE'', DInt 3)],
                     g_transforms := [(''globals'', Single ''float x;'')]\<rparr>"



section \<open>Objects: reading after writing\<close>





section \<open>Uniforms of a program that is not compiled\<close>

text \<open>
  C1, as the code has it: on a program that is not compiled, \<open>uniform\<close> and
  \<open>setUniforms\<close> return without an error and leave the program and the shared state,
  the calls on the graphics context among it, exactly as they were. The values are
  not recorded in \<open>uniforms\<close>.
\<close>

theorem uniform_uncompiled_is_noop:
  "\<not> compiled p \<Longrightarrow>
   uniform lib method name vals p g = (None, p, g) \<and> setUniforms lib us unit p g = (None, p, g)"
  by (simp add: uniform_def setUniforms_def)

theorem uniform_uncompiled_is_noop_witness:
  "\<not> compiled example_program
   \<and> uniform example_library ''1f'' ''u_time'' [JNum 1] example_program example_globals
       = (None, example_program, example_globals)
   \<and> setUniforms example_library [(''u_time'', JNum 1)] None example_program example_globals
       = (None, example_program, example_globals)"
proof -
  have h: "\<not> compiled example_program"
    by (simp add: example_program_def)
  show ?thesis
    using h uniform_uncompiled_is_noop [OF h] by simp
qed

text \<open>
  C1 as the spec states it fails: the value given to \<open>uniform\<close> before the compile is in
  no entry of \<open>uniforms\<close> afterwards, and the compile that follows succeeds and makes no
  uniform call on the context: it updates the program and uses it, nothing else.
\<close>

theorem uniform_uncompiled_not_recorded:
  "\<not> compiled example_program
   \<and> obj_get (uniforms (fst (snd (uniform example_library ''1f'' ''u_time'' [JNum 1]
                                    example_program example_globals)))) ''u_time'' = None
   \<and> (case uniform example_library ''1f'' ''u_time'' [JNum 1] example_program example_globals of
        (e, p, g) \<Rightarrow>
          (case compile example_library p g of
             (e', p', g') \<Rightarrow>
               e' = None \<and> compiled p' \<and> uniforms p' = []
               \<and> gl_calls g' =
                   [UpdateProgram None (computed_vertex_shader p') (computed_fragment_shader p'),
                    UseProgram (Some 1)]))"
  by code_simp

section \<open>A second compile while one is in progress\<close>

text \<open>
  C7: when \<open>compiling\<close> is set, \<open>compile\<close> throws at once and changes nothing: not the
  computed sources, not \<open>compiled\<close>, not any other field of the program or of the
  shared state. Nothing is queued, since nothing is written at all.
\<close>

theorem compile_rejects_reentry:
  "compiling p \<Longrightarrow> compile lib p g = (Some Already_compiling, p, g)"
  by (simp add: compile_def)

theorem compile_rejects_reentry_witness:
  "compiling (example_program\<lparr>compiling := True\<rparr>)
   \<and> compile example_library (example_program\<lparr>compiling := True\<rparr>) example_globals
       = (Some Already_compiling, example_program\<lparr>compiling := True\<rparr>, example_globals)"
proof -
  have h: "compiling (example_program\<lparr>compiling := True\<rparr>)"
    by simp
  show ?thesis
    using h compile_rejects_reentry [OF h] by simp
qed

section \<open>A key whose transform list is empty\<close>

text \<open>
  C2 fails on the code. After \<open>GLProgram.removeTransform('globals')\<close> the list of
  \<open>globals\<close> is the empty array, which is not falsy, so the loop goes on to the marker,
  finds it in the vertex shader and calls \<open>reduce\<close> on the empty array: \<open>compile\<close> throws
  a \<open>TypeError\<close>, the marker is still in the computed source, and \<open>compiling\<close> stays set.
\<close>

theorem compile_throws_on_removed_transform:
  "compile example_library example_program (removeTransform ''globals'' example_globals)
     = (Some Reduce_of_empty_array,
        example_program\<lparr>compiling := True,
          computed_vertex_shader := ''#pragma tangram: globals'' @ newline @ ''void main() {}'',
          computed_fragment_shader := ''void main() {}''\<rparr>,
        removeTransform ''globals'' example_globals)"
  by code_simp

section \<open>The geometry of a source\<close>




section \<open>Merging into a tile\<close>






section \<open>Compiling twice\<close>

text \<open>
  What \<open>compile\<close> reads to compose the sources, it does not write: linking and
  refreshing change the program object, the flags, the uniforms and the attributes.
\<close>

lemma updateUniform_globals:
  "updateUniform lib name p g = (e, g') \<Longrightarrow> g_defines g' = g_defines g \<and> g_transforms g' = g_transforms g"
  by (auto simp: updateUniform_def use_def gl_call_def split: if_splits option.splits)

lemma refresh_each_static:
  "refresh_each lib us p g = (e, p', g') \<Longrightarrow>
     p' = p\<lparr>uniforms := uniforms p'\<rparr> \<and> g_defines g' = g_defines g \<and> g_transforms g' = g_transforms g"
proof (induction us arbitrary: p g)
  case Nil
  then show ?case by simp
next
  case (Cons u us)
  show ?case
  proof (cases "obj_get (uniforms p) u")
    case None
    with Cons.prems show ?thesis by simp
  next
    case (Some entry)
    define loc where "loc = getUniformLocation lib (gl_calls g) (gl_program p) u"
    define g1 where "g1 = gl_call (GetUniformLocation (gl_program p) u) g"
    define p1 where "p1 = p\<lparr>uniforms := obj_set (uniforms p) u (entry\<lparr>u_location := loc\<rparr>)\<rparr>"
    obtain e1 g2 where u: "updateUniform lib u p1 g1 = (e1, g2)"
      by (cases "updateUniform lib u p1 g1")
    have g2: "g_defines g2 = g_defines g \<and> g_transforms g2 = g_transforms g"
      using updateUniform_globals[OF u] by (simp add: g1_def gl_call_def)
    show ?thesis
    proof (cases e1)
      case None
      with Cons.prems Some u have "refresh_each lib us p1 g2 = (e, p', g')"
        by (simp add: Let_def p1_def g1_def loc_def)
      from Cons.IH[OF this] g2 show ?thesis
        by (simp add: p1_def)
    next
      case (Some err)
      with Cons.prems \<open>obj_get (uniforms p) u = Some entry\<close> u have "p' = p1" "g' = g2"
        by (simp_all add: Let_def p1_def g1_def loc_def)
      with g2 show ?thesis by (simp add: p1_def)
    qed
  qed
qed

lemma link_program_static:
  "link_program lib p g = (e, p', g') \<Longrightarrow>
     vertex_shader p' = vertex_shader p \<and> fragment_shader p' = fragment_shader p
     \<and> prog_defines p' = prog_defines p \<and> prog_transforms p' = prog_transforms p
     \<and> dependent_uniforms p' = dependent_uniforms p \<and> prog_id p' = prog_id p
     \<and> prog_name p' = prog_name p
     \<and> computed_vertex_shader p' = computed_vertex_shader p
     \<and> computed_fragment_shader p' = computed_fragment_shader p
     \<and> \<not> compiling p'
     \<and> g_defines g' = g_defines g \<and> g_transforms g' = g_transforms g"
proof (cases "updateProgram lib (gl_calls g) (gl_program p) (computed_vertex_shader p) (computed_fragment_shader p)")
  case (Inl d)
  assume "link_program lib p g = (e, p', g')"
  with Inl show ?thesis
    by (auto simp: link_program_def Let_def gl_call_def)
next
  case (Inr h)
  assume a: "link_program lib p g = (e, p', g')"
  define p1 where "p1 = p\<lparr>gl_program := Some h, compiled := True, compiling := False\<rparr>"
  define g1 where "g1 = use p1 (gl_call (UpdateProgram (gl_program p) (computed_vertex_shader p) (computed_fragment_shader p)) g)"
  obtain e2 p2 g2 where r: "refreshUniforms lib p1 g1 = (e2, p2, g2)"
    by (cases "refreshUniforms lib p1 g1") auto
  then have "refresh_each lib (obj_keys (uniforms p1)) p1 g1 = (e2, p2, g2)"
    by (simp add: refreshUniforms_def p1_def)
  from refresh_each_static[OF this]
  have p2: "p2 = p1\<lparr>uniforms := uniforms p2\<rparr>" and g2: "g_defines g2 = g_defines g" "g_transforms g2 = g_transforms g"
    by (simp_all add: g1_def use_def gl_call_def)
  from a Inr r have c: "p' = p2 \<or> p' = refreshAttributes p2" and g': "g' = g2"
    by (auto simp: link_program_def Let_def p1_def g1_def split: option.splits)
  have s2: "vertex_shader p2 = vertex_shader p \<and> fragment_shader p2 = fragment_shader p
     \<and> prog_defines p2 = prog_defines p \<and> prog_transforms p2 = prog_transforms p
     \<and> dependent_uniforms p2 = dependent_uniforms p \<and> prog_id p2 = prog_id p
     \<and> prog_name p2 = prog_name p
     \<and> computed_vertex_shader p2 = computed_vertex_shader p
     \<and> computed_fragment_shader p2 = computed_fragment_shader p
     \<and> \<not> compiling p2"
    by (subst p2, simp add: p1_def)+ 
  from c show ?thesis
  proof
    assume "p' = p2"
    with s2 g2 g' show ?thesis by simp
  next
    assume "p' = refreshAttributes p2"
    with s2 g2 g' show ?thesis by (simp add: refreshAttributes_def)
  qed
qed

lemma compose_sources_static:
  "computed_vertex_shader p' = computed_vertex_shader p \<Longrightarrow>
   computed_fragment_shader p' = computed_fragment_shader p \<Longrightarrow>
   prog_defines p' = prog_defines p \<Longrightarrow> prog_transforms p' = prog_transforms p \<Longrightarrow>
   dependent_uniforms p' = dependent_uniforms p \<Longrightarrow> prog_id p' = prog_id p \<Longrightarrow>
   prog_name p' = prog_name p \<Longrightarrow>
   g_defines g' = g_defines g \<Longrightarrow> g_transforms g' = g_transforms g \<Longrightarrow>
   compose_sources lib g' p' = compose_sources lib g p"
proof -
  assume a: "computed_vertex_shader p' = computed_vertex_shader p"
   "computed_fragment_shader p' = computed_fragment_shader p"
   "prog_defines p' = prog_defines p" "prog_transforms p' = prog_transforms p"
   "dependent_uniforms p' = dependent_uniforms p" "prog_id p' = prog_id p"
   "prog_name p' = prog_name p"
   "g_defines g' = g_defines g" "g_transforms g' = g_transforms g"
  have i: "program_info p' = program_info p"
    by (simp add: program_info_def a split: option.splits)
  have f: "finish_source lib p' = finish_source lib p"
    unfolding finish_source_def i a by (rule refl)
  have t: "buildShaderTransformList lib g' p' = buildShaderTransformList lib g p"
    by (simp add: buildShaderTransformList_def a)
  have d: "buildDefineList g' p' = buildDefineList g p"
    by (simp add: buildDefineList_def a)
  show ?thesis
    unfolding compose_sources_def f t d a by (rule refl)
qed

text \<open>
  C6: two calls of \<open>compile\<close> in a row, the second on the program and the shared state
  as the first left them, leave the same computed vertex source and the same computed
  fragment source. This holds whatever the first call did: when it threw before
  linking, the second throws at the guard and the sources stay as they stood.
\<close>

theorem compile_twice_same_sources:
  assumes c1: "compile lib p g = (e1, p1, g1)"
      and c2: "compile lib p1 g1 = (e2, p2, g2)"
  shows "computed_vertex_shader p2 = computed_vertex_shader p1
         \<and> computed_fragment_shader p2 = computed_fragment_shader p1"
proof (cases "compiling p1")
  case True
  with c2 show ?thesis by (simp add: compile_def)
next
  case False
  with c1 have nc: "\<not> compiling p"
    by (auto simp: compile_def)
  define q where "q = p\<lparr>compiling := True, compiled := False,
      computed_vertex_shader := vertex_shader p, computed_fragment_shader := fragment_shader p\<rparr>"
  obtain e vs fs where cs: "compose_sources lib g q = (e, vs, fs)"
    by (cases "compose_sources lib g q") auto
  have e: "e = None"
  proof (cases e)
    case (Some err)
    with c1 nc cs have "p1 = q\<lparr>computed_vertex_shader := vs, computed_fragment_shader := fs\<rparr>"
      by (simp add: compile_def q_def)
    with False show ?thesis by (simp add: q_def)
  qed simp
  define q' where "q' = q\<lparr>computed_vertex_shader := vs, computed_fragment_shader := fs\<rparr>"
  from c1 nc cs e have l1: "link_program lib q' g = (e1, p1, g1)"
    by (simp add: compile_def q_def q'_def)
  note s1 = link_program_static[OF l1]
  define r where "r = p1\<lparr>compiling := True, compiled := False,
      computed_vertex_shader := vertex_shader p1, computed_fragment_shader := fragment_shader p1\<rparr>"
  have "compose_sources lib g1 r = compose_sources lib g q"
    using s1 by (intro compose_sources_static) (simp_all add: r_def q_def q'_def)
  with cs e have cs2: "compose_sources lib g1 r = (None, vs, fs)" by simp
  from c2 False cs2 have l2: "link_program lib (r\<lparr>computed_vertex_shader := vs, computed_fragment_shader := fs\<rparr>) g1 = (e2, p2, g2)"
    by (simp add: compile_def r_def)
  from link_program_static[OF l2] s1 show ?thesis
    by (simp add: q'_def)
qed

theorem compile_twice_same_sources_witness:
  "(case compile example_library example_rainbow example_registry of
      (e1, p1, g1) \<Rightarrow>
        (case compile example_library p1 g1 of
           (e2, p2, g2) \<Rightarrow>
             e1 = None \<and> e2 = None
             \<and> computed_vertex_shader p2 = computed_vertex_shader p1
             \<and> computed_fragment_shader p2 = computed_fragment_shader p1
             \<and> computed_vertex_shader p2 =
                 ''// Program: id 0'' @ newline @ ''#define SCALE 3.0'' @ newline
                   @ ''#define DOTS'' @ newline @ ''#define TANGRAM_TRANSFORM_GLOBALS'' @ newline
                   @ ''#define TANGRAM_TRANSFORM_COLOR'' @ newline
                   @ ''float x;'' @ newline @ ''float y;'' @ newline @ ''void main() {}''
             \<and> computed_fragment_shader p2 =
                 ''// Program: id 0'' @ newline @ ''uniform float u_dot_scale;'' @ newline
                   @ ''#define SCALE 3.0'' @ newline
                   @ ''#define DOTS'' @ newline @ ''#define TANGRAM_TRANSFORM_GLOBALS'' @ newline
                   @ ''#define TANGRAM_TRANSFORM_COLOR'' @ newline
                   @ ''void main() {'' @ newline @ ''c = 1.;'' @ newline
                   @ ''float s = u_dot_scale; }''))"
proof -
  obtain e1 p1 g1 where c1: "compile example_library example_rainbow example_registry = (e1, p1, g1)"
    by (cases "compile example_library example_rainbow example_registry") auto
  obtain e2 p2 g2 where c2: "compile example_library p1 g1 = (e2, p2, g2)"
    by (cases "compile example_library p1 g1") auto
  have v: "computed_vertex_shader (fst (snd (compile example_library example_rainbow example_registry)))
             = ''// Program: id 0'' @ newline @ ''#define SCALE 3.0'' @ newline
                   @ ''#define DOTS'' @ newline @ ''#define TANGRAM_TRANSFORM_GLOBALS'' @ newline
                   @ ''#define TANGRAM_TRANSFORM_COLOR'' @ newline
                   @ ''float x;'' @ newline @ ''float y;'' @ newline @ ''void main() {}''"
    by code_simp
  have f: "computed_fragment_shader (fst (snd (compile example_library example_rainbow example_registry)))
             = ''// Program: id 0'' @ newline @ ''uniform float u_dot_scale;'' @ newline
                   @ ''#define SCALE 3.0'' @ newline
                   @ ''#define DOTS'' @ newline @ ''#define TANGRAM_TRANSFORM_GLOBALS'' @ newline
                   @ ''#define TANGRAM_TRANSFORM_COLOR'' @ newline
                   @ ''void main() {'' @ newline @ ''c = 1.;'' @ newline
                   @ ''float s = u_dot_scale; }''"
    by code_simp
  have e: "fst (compile example_library example_rainbow example_registry) = None"
    by code_simp
  have e': "fst (compile example_library
                   (fst (snd (compile example_library example_rainbow example_registry)))
                   (snd (snd (compile example_library example_rainbow example_registry)))) = None"
    by code_simp
  from compile_twice_same_sources [OF c1 c2] c1 c2 v f e e' show ?thesis
    by simp
qed

section \<open>The feature counter of the geometry build\<close>

lemma track_order_features: "debug_features (track_order n t) = debug_features t \<and> layers (track_order n t) = layers t"
  by (simp add: track_order_def Let_def split: option.splits)

lemma build_rule_features:
  "build_rule lib sp styles feature name rl (c, t, v) = Inr (c', t', v') \<Longrightarrow>
     debug_features t' = debug_features t \<and> layers t' = layers t"
  by (auto simp: build_rule_def Let_def track_order_features split: if_splits option.splits jsval.splits)

lemma build_rules_features:
  "build_rules lib sp styles feature name rls (c, t, v) = Inr (c', t', v') \<Longrightarrow>
     debug_features t' = debug_features t \<and> layers t' = layers t"
proof (induction rls arbitrary: c t v)
  case Nil
  then show ?case by simp
next
  case (Cons rl rls)
  then obtain c1 t1 v1 where 1: "build_rule lib sp styles feature name rl (c, t, v) = Inr (c1, t1, v1)"
     and 2: "build_rules lib sp styles feature name rls (c1, t1, v1) = Inr (c', t', v')"
    by (auto split: sum.splits)
  from build_rule_features[OF 1] Cons.IH[OF 2] show ?case by simp
qed

lemma build_feature_features:
  "build_feature lib sp lr styles name f (t, v) = Inr (t', v') \<Longrightarrow>
     debug_features t' = debug_features t + 1 \<and> layers t' = layers t"
  by (auto simp: build_feature_def Let_def split: if_splits sum.splits dest!: build_rules_features)

lemma build_features_features:
  "build_features lib sp lr styles name fs (t, v) = Inr (t', v') \<Longrightarrow>
     debug_features t' = debug_features t + length fs \<and> layers t' = layers t"
proof (induction fs arbitrary: t v)
  case Nil
  then show ?case by simp
next
  case (Cons f fs)
  then obtain t1 v1 where 1: "build_feature lib sp lr styles name f (t, v) = Inr (t1, v1)"
     and 2: "build_features lib sp lr styles name fs (t1, v1) = Inr (t', v')"
    by (auto split: sum.splits)
  from build_feature_features[OF 1] Cons.IH[OF 2] show ?case by simp
qed

lemma getGeometryForSource_layers:
  "layers t' = layers t \<Longrightarrow> getGeometryForSource lib t' source = getGeometryForSource lib t source"
  by (simp add: getGeometryForSource_def split: option.splits geometry_filter.splits)

lemma layer_features_layers:
  "layers t' = layers t \<Longrightarrow> layer_features lib t' = layer_features lib t"
proof -
  assume "layers t' = layers t"
  then have g: "getGeometryForSource lib t' = getGeometryForSource lib t"
    by (intro ext) (rule getGeometryForSource_layers)
  show ?thesis
    unfolding layer_features_def g by (rule refl)
qed

lemma build_layer_features:
  "build_layer lib sp rules styles l (t, v) = Inr (t', v') \<Longrightarrow>
     debug_features t' = debug_features t + length (layer_features lib t l) \<and> layers t' = layers t"
  by (cases l)
     (auto simp: build_layer_def layer_features_def split: option.splits sum.splits
           dest!: build_features_features)

lemma build_layers_features:
  "build_layers lib sp rules styles ls (t, v) = Inr (t', v') \<Longrightarrow>
     debug_features t' = debug_features t + sum_list (map (\<lambda>l. length (layer_features lib t l)) ls)
     \<and> layers t' = layers t"
proof (induction ls arbitrary: t v)
  case Nil
  then show ?case by simp
next
  case (Cons l ls)
  then obtain t1 v1 where 1: "build_layer lib sp rules styles l (t, v) = Inr (t1, v1)"
     and 2: "build_layers lib sp rules styles ls (t1, v1) = Inr (t', v')"
    by (auto split: sum.splits)
  from build_layer_features[OF 1] have l1: "layers t1 = layers t" by simp
  from build_layer_features[OF 1] Cons.IH[OF 2] show ?case
    unfolding layer_features_layers[OF l1] by simp
qed

text \<open>
  C9: a turn of the feature loop that returns has added exactly one to the feature
  counter; when no rule matches a feature that is an object (an array is one), the
  turn returns, and it changes nothing else: the vertex data of every style is as it
  was. So a build that returns leaves in the counter the number of features of the
  layers it went through.
\<close>

theorem buildGeometry_counts_every_feature:
  "(build_feature lib sp lr styles name f (tile, vd) = Inr (tile', vd') \<longrightarrow>
      debug_features tile' = debug_features tile + 1)
   \<and> (is_object f \<and> match_rules lr (getFeatureParseContext sp f name tile) = [] \<longrightarrow>
      build_feature lib sp lr styles name f (tile, vd) =
        Inr (tile\<lparr>debug_features := debug_features tile + 1\<rparr>, vd))
   \<and> (buildGeometry lib sp t0 t1 tile ls rules styles = Inr built \<longrightarrow>
      debug_features built = sum_list (map (\<lambda>l. length (layer_features lib tile l)) ls))"
proof (intro conjI impI)
  assume "build_feature lib sp lr styles name f (tile, vd) = Inr (tile', vd')"
  from build_feature_features[OF this] show "debug_features tile' = debug_features tile + 1"
    by simp
next
  assume "is_object f \<and> match_rules lr (getFeatureParseContext sp f name tile) = []"
  then show "build_feature lib sp lr styles name f (tile, vd) =
        Inr (tile\<lparr>debug_features := debug_features tile + 1\<rparr>, vd)"
    by (simp add: build_feature_def Let_def)
next
  assume a: "buildGeometry lib sp t0 t1 tile ls rules styles = Inr built"
  define start where "start = tile\<lparr>debug_rendering := t0, debug_features := 0\<rparr>"
  from a obtain t' v' where b: "build_layers lib sp rules styles ls (start, []) = Inr (t', v')"
    and c: "debug_features built = debug_features t'"
    by (auto simp: buildGeometry_def start_def split: sum.splits)
  have ls: "layers start = layers tile" by (simp add: start_def)
  have "debug_features start = 0" by (simp add: start_def)
  with build_layers_features[OF b] c
  show "debug_features built = sum_list (map (\<lambda>l. length (layer_features lib tile l)) ls)"
    unfolding layer_features_layers[OF ls] by simp
qed

theorem buildGeometry_counts_every_feature_witness:
  "build_feature example_library example_parser (obj_get example_rules ''earth'') example_styles ''earth''
       (JArr [JNum 1, JNum 2]) (example_tile, [(''polygons'', [''polygon''])])
     = Inr (example_tile\<lparr>debug_features := 1\<rparr>, [(''polygons'', [''polygon''])])
   \<and> debug_features (example_tile\<lparr>debug_features := 1\<rparr>) = debug_features example_tile + 1
   \<and> (case buildGeometry example_library example_parser 100 130 example_tile
              [(''earth'', Some (Filter_name ''earth'')), (''sky'', None),
               (''water'', Some (Filter_name ''water''))]
              example_rules example_styles of
         Inl e \<Rightarrow> False
       | Inr built \<Rightarrow> debug_features built = 3 \<and> tile_vertex_data built = Some [(''polygons'', 1)])"
proof -
  have o: "is_object (JArr [JNum 1, JNum 2])"
    by (simp add: is_object_def)
  have m: "match_rules (obj_get example_rules ''earth'')
             (getFeatureParseContext example_parser (JArr [JNum 1, JNum 2]) ''earth'' example_tile) = []"
    by code_simp
  have b: "buildGeometry example_library example_parser 100 130 example_tile
              [(''earth'', Some (Filter_name ''earth'')), (''sky'', None),
               (''water'', Some (Filter_name ''water''))]
              example_rules example_styles
           = Inr (example_tile\<lparr>debug_features := 3, debug_rendering := 30, order_min := Some 3,
                     order_max := Some 3, tile_vertex_data := Some [(''polygons'', 1)]\<rparr>)"
    by code_simp
  have s: "sum_list (map (\<lambda>l. length (layer_features example_library example_tile l))
              [(''earth'', Some (Filter_name ''earth'')), (''sky'', None),
               (''water'', Some (Filter_name ''water''))]) = 3"
    by code_simp
  from buildGeometry_counts_every_feature
         [where lib = example_library and sp = example_parser and lr = "obj_get example_rules ''earth''"
            and styles = example_styles and name = "''earth''"
            and f = "JArr [JNum 1, JNum 2]" and tile = example_tile
            and vd = "[(''polygons'', [''polygon''])]"
            and tile' = "example_tile\<lparr>debug_features := 1\<rparr>"
            and vd' = "[(''polygons'', [''polygon''])]"
            and ?t0.0 = 100 and ?t1.0 = 130
            and ls = "[(''earth'', Some (Filter_name ''earth'')), (''sky'', None),
               (''water'', Some (Filter_name ''water''))]"
            and rules = example_rules
            and built = "example_tile\<lparr>debug_features := 3, debug_rendering := 30, order_min := Some 3,
                     order_max := Some 3, tile_vertex_data := Some [(''polygons'', 1)]\<rparr>"]
       o m b s
  show ?thesis
    by (simp add: example_tile_def)
qed

section \<open>What a match of the pragma pattern is\<close>

























section \<open>The merged transform lists\<close>















section \<open>The injection of a transform\<close>




lemma replace_first_char_none: "a \<notin> set s \<Longrightarrow> replace_first_char a b s = s"
  by (induction s) auto





section \<open>The declarations of the dependent uniforms\<close>





section \<open>The clean-up of the pragmas\<close>

text \<open>
  C3 fails on the code. The clean-up of line 148 is to take away every marker that was
  not replaced, and line 144 provides for keys with a space; but its pattern has
  \<open>\w+\<close> for the key, which no key with a space matches. The marker of the key
  \<open>my key\<close>, which has no transform, is still a line of the computed vertex source when
  \<open>compile\<close> has finished, and the program is compiled with it.
\<close>

theorem compile_leaves_marker_with_space:
  "compile example_library
       (example_program\<lparr>vertex_shader := ''#pragma tangram: my key'' @ newline @ ''void main() {}''\<rparr>)
       example_globals
     = (None,
        example_program
          \<lparr>gl_program := Some 1, compiled := True,
           vertex_shader := ''#pragma tangram: my key'' @ newline @ ''void main() {}'',
           computed_vertex_shader :=
             ''// Program: id 0'' @ newline @ ''#pragma tangram: my key'' @ newline @ ''void main() {}'',
           computed_fragment_shader := ''// Program: id 0'' @ newline @ ''void main() {}''\<rparr>,
        example_globals
          \<lparr>current := Some 0,
           gl_calls :=
             [UpdateProgram None
                (''// Program: id 0'' @ newline @ ''#pragma tangram: my key'' @ newline @ ''void main() {}'')
                (''// Program: id 0'' @ newline @ ''void main() {}''),
              UseProgram (Some 1)]\<rparr>)"
  by code_simp

end
